theory Spec2Isabelle
  imports Main
begin

section \<open>Python values, errors and list subscripts\<close>

text \<open>
  The notebook \<^verbatim>\<open>project.ipynb\<close> defines the class \<^verbatim>\<open>handDetector\<close> and the
  function \<^verbatim>\<open>main\<close>. The exceptions the modelled code can raise are an out-of-range list
  subscript and the read of the attribute \<^verbatim>\<open>results\<close> before \<^verbatim>\<open>findHands\<close> has set it.
\<close>

datatype error = IndexError | AttributeError

text \<open>
  The values the argument \<^verbatim>\<open>handType\<close> can take. \<^verbatim>\<open>getHandType\<close> returns a label string or
  \<^verbatim>\<open>None\<close>; an integer stands for the values of any other type, none of which is equal to
  a string.
\<close>

datatype pyval = PyNone | PyStr string | PyInt int

text \<open>Truth value of an object in a condition (\<^verbatim>\<open>if handType:\<close>).\<close>

fun truthy :: "pyval \<Rightarrow> bool" where
  "truthy PyNone = False"
| "truthy (PyStr s) = (s \<noteq> [])"
| "truthy (PyInt i) = (i \<noteq> 0)"

text \<open>Sequencing of computations that may raise: the first exception is propagated.\<close>

definition bindE :: "error + 'a \<Rightarrow> ('a \<Rightarrow> error + 'b) \<Rightarrow> error + 'b" where
  "bindE r f = (case r of Inl e \<Rightarrow> Inl e | Inr v \<Rightarrow> f v)"

text \<open>
  The list subscript \<^verbatim>\<open>xs[i]\<close>: a negative index counts from the end, and an index outside
  \<^verbatim>\<open>-len(xs) .. len(xs) - 1\<close> raises \<^verbatim>\<open>IndexError\<close>.
\<close>

definition getitem :: "'a list \<Rightarrow> int \<Rightarrow> error + 'a" where
  "getitem xs i =
     (if 0 \<le> i \<and> i < int (length xs) then Inr (xs ! nat i)
      else if i < 0 \<and> - int (length xs) \<le> i then Inr (xs ! nat (int (length xs) + i))
      else Inl IndexError)"

text \<open>\<^verbatim>\<open>range(a, b)\<close>, the integers from \<^verbatim>\<open>a\<close> up to \<^verbatim>\<open>b - 1\<close>.\<close>

definition range_py :: "int \<Rightarrow> int \<Rightarrow> int list" where
  "range_py a b = [a..b - 1]"

section \<open>The detector object\<close>

text \<open>
  What \<^verbatim>\<open>self.hands.process\<close> returns for one frame. The provider's landmarks carry
  floating-point coordinates normalised to the image; \<^verbatim>\<open>findPosition\<close> multiplies them by the
  image size and truncates (\<^verbatim>\<open>int(lm.x * w), int(lm.y * h)\<close>). The floating-point step is
  outside this development: a landmark is given here by the pixel pair \<^verbatim>\<open>(cx, cy)\<close> that step
  produces. A handedness entry is given by the label of its first classification.
\<close>

record results =
  multi_hand_landmarks :: "(int \<times> int) list list option"
  multi_handedness :: "string list option"

text \<open>
  The attributes of a \<^verbatim>\<open>handDetector\<close> that the modelled methods read. \<^verbatim>\<open>results\<close> does
  not exist until \<^verbatim>\<open>findHands\<close> has run. The remaining attributes (\<^verbatim>\<open>mode\<close>, \<^verbatim>\<open>maxHands\<close>,
  the two confidences and the provider's handles) are only handed to the provider.
\<close>

record handDetector =
  tipIds :: "int list"
  results :: "results option"

definition handDetector_init :: handDetector where
  "handDetector_init = \<lparr> tipIds = [4, 8, 12, 16, 20], results = None \<rparr>"

text \<open>
  \<^verbatim>\<open>findHands\<close> stores the provider's answer in \<^verbatim>\<open>self.results\<close>. Its loop over the detected
  hands, which calls the provider's \<^verbatim>\<open>draw_landmarks\<close> on each of them, is not modelled: that
  call is defined on a hand with its 21 landmarks, so the theorems about \<^verbatim>\<open>main\<close> below are
  stated for frames all of whose hands have 21 landmarks.
\<close>

definition findHands :: "handDetector \<Rightarrow> results \<Rightarrow> handDetector" where
  "findHands self r = self \<lparr> results := Some r \<rparr>"

text \<open>A list or \<^verbatim>\<open>None\<close> in a condition: \<^verbatim>\<open>None\<close> and the empty list are false.\<close>

fun truthy_list :: "'a list option \<Rightarrow> bool" where
  "truthy_list None = False"
| "truthy_list (Some xs) = (xs \<noteq> [])"

text \<open>\<^verbatim>\<open>enumerate(xs)\<close>.\<close>

definition enumerate_py :: "'a list \<Rightarrow> (int \<times> 'a) list" where
  "enumerate_py xs = zip (map int [0..<length xs]) xs"

text \<open>
  \<^verbatim>\<open>findPosition\<close>: the list of \<^verbatim>\<open>[id, cx, cy]\<close> of hand number \<^verbatim>\<open>handNo\<close>, or the empty
  list when no hand was detected. The circle it draws on each landmark is not modelled.
\<close>

definition findPosition :: "handDetector \<Rightarrow> int \<Rightarrow> error + int list list" where
  "findPosition self handNo =
     (case results self of
        None \<Rightarrow> Inl AttributeError
      | Some r \<Rightarrow>
          if truthy_list (multi_hand_landmarks r) then
            bindE (getitem (the (multi_hand_landmarks r)) handNo)
              (\<lambda>myHand. Inr (map (\<lambda>(n, lm). [n, fst lm, snd lm]) (enumerate_py myHand)))
          else Inr [])"

text \<open>
  The subscript chain \<^verbatim>\<open>lmList[self.tipIds[i] - off][k]\<close>, which \<^verbatim>\<open>fingersUp\<close> evaluates
  with \<^verbatim>\<open>off\<close> 0, 1 or 2 and \<^verbatim>\<open>k\<close> 1 (x) or 2 (y).
\<close>

definition landmark_coord ::
    "handDetector \<Rightarrow> int list list \<Rightarrow> int \<Rightarrow> int \<Rightarrow> int \<Rightarrow> error + int" where
  "landmark_coord self lmList i off k =
     bindE (getitem (tipIds self) i) (\<lambda>t.
     bindE (getitem lmList (t - off)) (\<lambda>p. getitem p k))"

text \<open>The loop \<^verbatim>\<open>for id in range(1, 5)\<close> of \<^verbatim>\<open>fingersUp\<close>, appending to \<^verbatim>\<open>fingers\<close>.\<close>

fun fingers_loop ::
    "handDetector \<Rightarrow> int list list \<Rightarrow> int list \<Rightarrow> int list \<Rightarrow> error + int list" where
  "fingers_loop self lmList [] fingers = Inr fingers"
| "fingers_loop self lmList (i # ids) fingers =
     bindE (landmark_coord self lmList i 0 2) (\<lambda>tip.
     bindE (landmark_coord self lmList i 2 2) (\<lambda>ref.
       fingers_loop self lmList ids (fingers @ [if tip < ref then 1 else 0])))"

text \<open>
  \<^verbatim>\<open>fingersUp\<close>. The result is a list of the integers 1 (finger up) and 0, the thumb first.
\<close>

definition fingersUp :: "handDetector \<Rightarrow> int list list \<Rightarrow> pyval \<Rightarrow> error + int list" where
  "fingersUp self lmList handType =
     bindE
       (if handType = PyStr ''Right'' then
          bindE (landmark_coord self lmList 0 0 1) (\<lambda>tip.
          bindE (landmark_coord self lmList 0 1 1) (\<lambda>ref.
            Inr ([] @ [if tip < ref then 1 else (0::int)])))
        else
          bindE (landmark_coord self lmList 0 0 1) (\<lambda>tip.
          bindE (landmark_coord self lmList 0 1 1) (\<lambda>ref.
            Inr ([] @ [if tip > ref then 1 else 0]))))
       (\<lambda>fingers. fingers_loop self lmList (range_py 1 5) fingers)"

text \<open>\<^verbatim>\<open>getHandType\<close>: the label of hand \<^verbatim>\<open>handIndex\<close>, or \<^verbatim>\<open>None\<close> without handedness data.\<close>

definition getHandType :: "handDetector \<Rightarrow> int \<Rightarrow> error + pyval" where
  "getHandType self handIndex =
     (case results self of
        None \<Rightarrow> Inl AttributeError
      | Some r \<Rightarrow>
          if truthy_list (multi_handedness r) then
            bindE (getitem (the (multi_handedness r)) handIndex) (\<lambda>label. Inr (PyStr label))
          else Inr PyNone)"

text \<open>The list method \<^verbatim>\<open>count\<close>, as in \<^verbatim>\<open>fingers.count(1)\<close>.\<close>

definition count_py :: "int list \<Rightarrow> int \<Rightarrow> int" where
  "count_py xs v = int (length (filter (\<lambda>x. x = v) xs))"

section \<open>The frame loop of \<^verbatim>\<open>main\<close>\<close>

text \<open>
  The variables of \<^verbatim>\<open>main\<close> that live across iterations of \<^verbatim>\<open>while True\<close>: the detector
  and \<^verbatim>\<open>totalFingers\<close>, the count written on the frame. Capture, drawing and display are
  outside the model.
\<close>

record main_vars =
  detector :: handDetector
  totalFingers :: int

text \<open>
  The body of the loop over \<^verbatim>\<open>enumerate(detector.results.multi_hand_landmarks)\<close> for one
  hand, from the running total to the new one.
\<close>

definition hand_step :: "handDetector \<Rightarrow> int \<Rightarrow> int \<Rightarrow> error + int" where
  "hand_step det cnt handIndex =
     bindE (findPosition det handIndex) (\<lambda>lmList.
     bindE (getHandType det handIndex) (\<lambda>handType.
       if truthy handType then
         bindE (fingersUp det lmList handType) (\<lambda>fingers.
           Inr (cnt + count_py fingers 1))
       else Inr cnt))"

fun hands_loop :: "handDetector \<Rightarrow> (int \<times> 'a) list \<Rightarrow> int \<Rightarrow> error + int" where
  "hands_loop det [] cnt = Inr cnt"
| "hands_loop det ((handIndex, handLms) # rest) cnt =
     bindE (hand_step det cnt handIndex) (\<lambda>cnt'. hands_loop det rest cnt')"

text \<open>
  One iteration of \<^verbatim>\<open>while True\<close>, for the answer \<^verbatim>\<open>r\<close> of the provider on the frame read:
  \<^verbatim>\<open>findHands\<close>, \<^verbatim>\<open>totalFingers = 0\<close>, the loop over the hands. The loop has no exit, so
  \<^verbatim>\<open>main\<close> itself never returns; what is modelled is the state each iteration leaves.
\<close>

definition main_iteration :: "main_vars \<Rightarrow> results \<Rightarrow> error + main_vars" where
  "main_iteration vars r =
     (let det = findHands (detector vars) r in
      case results det of
        None \<Rightarrow> Inl AttributeError
      | Some res \<Rightarrow>
          if truthy_list (multi_hand_landmarks res) then
            bindE (hands_loop det (enumerate_py (the (multi_hand_landmarks res))) 0)
              (\<lambda>cnt. Inr \<lparr> detector = det, totalFingers = cnt \<rparr>)
          else Inr \<lparr> detector = det, totalFingers = 0 \<rparr>)"

section \<open>Well-formed hand observations\<close>

text \<open>Every entry of a landmark list is a list \<^verbatim>\<open>[id, cx, cy]\<close>, as \<^verbatim>\<open>findPosition\<close> builds it.\<close>

definition landmark_entries :: "int list list \<Rightarrow> bool" where
  "landmark_entries lmList \<longleftrightarrow> list_all (\<lambda>p. length p = 3) lmList"

text \<open>A hand observation: exactly 21 such landmarks.\<close>

definition hand_observation :: "int list list \<Rightarrow> bool" where
  "hand_observation lmList \<longleftrightarrow> length lmList = 21 \<and> landmark_entries lmList"

text \<open>x and y of landmark \<^verbatim>\<open>i\<close> of a landmark list.\<close>

definition lm_x :: "int list list \<Rightarrow> nat \<Rightarrow> int" where
  "lm_x lmList i = lmList ! i ! 1"

definition lm_y :: "int list list \<Rightarrow> nat \<Rightarrow> int" where
  "lm_y lmList i = lmList ! i ! 2"

text \<open>The integer \<^verbatim>\<open>fingersUp\<close> appends for a comparison: 1 when it holds, 0 otherwise.\<close>

definition b2i :: "bool \<Rightarrow> int" where
  "b2i b = (if b then 1 else 0)"

text \<open>
  A landmark list with the given coordinates: \<^verbatim>\<open>mk_lmList ps\<close> is what \<^verbatim>\<open>findPosition\<close>
  returns for a hand whose pixel pairs are \<^verbatim>\<open>ps\<close>.
\<close>

definition mk_lmList :: "(int \<times> int) list \<Rightarrow> int list list" where
  "mk_lmList ps = map (\<lambda>(n, lm). [n, fst lm, snd lm]) (enumerate_py ps)"

text \<open>
  The end-to-end example of the specification: thumb tip (4) x = 300, reference (3) x = 250;
  index tip (8) y = 120, reference (6) y = 200; middle tip (12) y = 210, reference (10)
  y = 180; ring tip (16) y = 300, reference (14) y = 150; pinky tip (20) y = 50, reference
  (18) y = 300. The coordinates the example leaves open are 0.
\<close>

definition example_hand :: "int list list" where
  "example_hand =
     [[0, 0, 0], [1, 0, 0], [2, 0, 0], [3, 250, 0], [4, 300, 0], [5, 0, 0], [6, 0, 200],
      [7, 0, 0], [8, 0, 120], [9, 0, 0], [10, 0, 180], [11, 0, 0], [12, 0, 210], [13, 0, 0],
      [14, 0, 150], [15, 0, 0], [16, 0, 300], [17, 0, 0], [18, 0, 300], [19, 0, 0],
      [20, 0, 50]]"

text \<open>The thumb example of the specification: tip x = 100, reference x = 150.\<close>

definition thumb_hand :: "int list list" where
  "thumb_hand = mk_lmList ((replicate 21 (0, 0)) [3 := (150, 0), 4 := (100, 0)])"

text \<open>A hand all of whose compared coordinates are level.\<close>

definition level_hand :: "int list list" where
  "level_hand = mk_lmList (replicate 21 (7, 7))"

text \<open>A hand with every tip above (and, for the thumb, to the right of) its reference.\<close>

definition open_hand :: "int list list" where
  "open_hand =
     [[0, 0, 0], [1, 0, 0], [2, 0, 0], [3, 10, 0], [4, 20, 0], [5, 0, 0], [6, 0, 50],
      [7, 0, 0], [8, 0, 10], [9, 0, 0], [10, 0, 50], [11, 0, 0], [12, 0, 10], [13, 0, 0],
      [14, 0, 50], [15, 0, 0], [16, 0, 10], [17, 0, 0], [18, 0, 50], [19, 0, 0],
      [20, 0, 10]]"

section \<open>Frames\<close>

text \<open>
  The finger-state vector of hand number \<^verbatim>\<open>handIndex\<close> of the frame the detector holds:
  \<^verbatim>\<open>fingersUp\<close> applied to what \<^verbatim>\<open>findPosition\<close> and \<^verbatim>\<open>getHandType\<close> return for that hand,
  as \<^verbatim>\<open>main\<close> calls them.
\<close>

definition hand_vector :: "handDetector \<Rightarrow> int \<Rightarrow> error + int list" where
  "hand_vector det handIndex =
     bindE (findPosition det handIndex) (\<lambda>lmList.
     bindE (getHandType det handIndex) (\<lambda>handType. fingersUp det lmList handType))"

text \<open>
  A frame in which the provider reports the hands \<^verbatim>\<open>hands\<close>, each with 21 landmarks, and
  a non-empty handedness label for each of them.
\<close>

definition labelled_frame :: "results \<Rightarrow> (int \<times> int) list list \<Rightarrow> string list \<Rightarrow> bool" where
  "labelled_frame r hands labels \<longleftrightarrow>
     multi_hand_landmarks r = Some hands \<and> multi_handedness r = Some labels \<and>
     length hands \<le> length labels \<and>
     list_all (\<lambda>h. length h = 21) hands \<and> list_all (\<lambda>l. l \<noteq> []) labels"

text \<open>A frame without detected hands: the provider reports \<^verbatim>\<open>None\<close> (or an empty list).\<close>

definition no_hands :: "results \<Rightarrow> bool" where
  "no_hands r \<longleftrightarrow> multi_hand_landmarks r = None \<or> multi_hand_landmarks r = Some []"

text \<open>
  The pixel pairs of \<^verbatim>\<open>example_hand\<close> and of \<^verbatim>\<open>open_hand\<close>, a frame with these two hands
  labelled "Right" and "Left", a frame with no hand, a frame with the example hand alone,
  and a frame with one hand and no handedness data.
\<close>

definition example_pixels :: "(int \<times> int) list" where
  "example_pixels =
     [(0, 0), (0, 0), (0, 0), (250, 0), (300, 0), (0, 0), (0, 200), (0, 0), (0, 120), (0, 0),
      (0, 180), (0, 0), (0, 210), (0, 0), (0, 150), (0, 0), (0, 300), (0, 0), (0, 300),
      (0, 0), (0, 50)]"

definition open_pixels :: "(int \<times> int) list" where
  "open_pixels =
     [(0, 0), (0, 0), (0, 0), (10, 0), (20, 0), (0, 0), (0, 50), (0, 0), (0, 10), (0, 0),
      (0, 50), (0, 0), (0, 10), (0, 0), (0, 50), (0, 0), (0, 10), (0, 0), (0, 50), (0, 0),
      (0, 10)]"

definition two_hands_frame :: results where
  "two_hands_frame =
     \<lparr> multi_hand_landmarks = Some [example_pixels, open_pixels],
       multi_handedness = Some [''Right'', ''Left''] \<rparr>"

definition empty_frame :: results where
  "empty_frame = \<lparr> multi_hand_landmarks = None, multi_handedness = None \<rparr>"

definition example_frame :: results where
  "example_frame =
     \<lparr> multi_hand_landmarks = Some [example_pixels], multi_handedness = Some [''Right''] \<rparr>"

definition unlabelled_frame :: results where
  "unlabelled_frame = \<lparr> multi_hand_landmarks = Some [open_pixels], multi_handedness = None \<rparr>"

section \<open>\<^verbatim>\<open>fingersUp\<close> on a store of list objects\<close>

text \<open>
  The definitions above take lists as values. In the program \<^verbatim>\<open>lmList\<close>, its entries,
  \<^verbatim>\<open>self.tipIds\<close> and \<^verbatim>\<open>fingers\<close> are mutable list objects, and \<^verbatim>\<open>fingers.append\<close> updates
  one of them in place. The store holds the list objects by address (the position in the
  store): the lists of integers, and the lists whose entries are references to lists of
  integers, as \<^verbatim>\<open>lmList\<close> is. An entry of \<^verbatim>\<open>lmList\<close> may be the same object as another entry
  or as \<^verbatim>\<open>self.tipIds\<close>. Of the detector object the store holds the attribute that
  \<^verbatim>\<open>fingersUp\<close> uses, \<^verbatim>\<open>tipIds\<close>, as the address of its list.
\<close>

record pyheap =
  int_lists :: "int list list"
  ref_lists :: "nat list list"
  self_tipIds :: nat

text \<open>\<^verbatim>\<open>fingers = []\<close> creates a list object at a new address.\<close>

definition new_list :: "pyheap \<Rightarrow> nat \<times> pyheap" where
  "new_list h = (length (int_lists h), h \<lparr> int_lists := int_lists h @ [[]] \<rparr>)"

text \<open>\<^verbatim>\<open>fingers.append(v)\<close> updates the list object at the address \<^verbatim>\<open>fingers\<close> holds.\<close>

definition list_append :: "pyheap \<Rightarrow> nat \<Rightarrow> int \<Rightarrow> pyheap" where
  "list_append h a v = h \<lparr> int_lists := (int_lists h) [a := int_lists h ! a @ [v]] \<rparr>"

text \<open>\<^verbatim>\<open>lmList[self.tipIds[i] - off][k]\<close>, read from the store.\<close>

definition landmark_coord_heap :: "pyheap \<Rightarrow> nat \<Rightarrow> int \<Rightarrow> int \<Rightarrow> int \<Rightarrow> error + int" where
  "landmark_coord_heap h lmList i off k =
     bindE (getitem (int_lists h ! self_tipIds h) i) (\<lambda>t.
     bindE (getitem (ref_lists h ! lmList) (t - off)) (\<lambda>p. getitem (int_lists h ! p) k))"

text \<open>
  The loop and the method, returning the address of \<^verbatim>\<open>fingers\<close> (or the exception) and the
  store they leave.
\<close>

fun fingers_loop_heap ::
    "pyheap \<Rightarrow> nat \<Rightarrow> int list \<Rightarrow> nat \<Rightarrow> (error + nat) \<times> pyheap" where
  "fingers_loop_heap h lmList [] fingers = (Inr fingers, h)"
| "fingers_loop_heap h lmList (i # ids) fingers =
     (case landmark_coord_heap h lmList i 0 2 of
        Inl e \<Rightarrow> (Inl e, h)
      | Inr tip \<Rightarrow>
          (case landmark_coord_heap h lmList i 2 2 of
             Inl e \<Rightarrow> (Inl e, h)
           | Inr ref \<Rightarrow>
               fingers_loop_heap (list_append h fingers (if tip < ref then 1 else 0))
                 lmList ids fingers))"

definition fingersUp_heap :: "pyheap \<Rightarrow> nat \<Rightarrow> pyval \<Rightarrow> (error + nat) \<times> pyheap" where
  "fingersUp_heap h0 lmList handType =
     (let (fingers, h) = new_list h0 in
      case landmark_coord_heap h lmList 0 0 1 of
        Inl e \<Rightarrow> (Inl e, h)
      | Inr tip \<Rightarrow>
          (case landmark_coord_heap h lmList 0 1 1 of
             Inl e \<Rightarrow> (Inl e, h)
           | Inr ref \<Rightarrow>
               fingers_loop_heap
                 (list_append h fingers
                    (if handType = PyStr ''Right'' then (if tip < ref then 1 else 0)
                     else (if tip > ref then 1 else 0)))
                 lmList (range_py 1 5) fingers))"

text \<open>The landmark list at an address as a value, and the vector a call returns as a value.\<close>

definition abs_lmList :: "pyheap \<Rightarrow> nat \<Rightarrow> int list list" where
  "abs_lmList h lmList = map (\<lambda>p. int_lists h ! p) (ref_lists h ! lmList)"

definition abs_result :: "(error + nat) \<times> pyheap \<Rightarrow> error + int list" where
  "abs_result rh = (case fst rh of Inl e \<Rightarrow> Inl e | Inr a \<Rightarrow> Inr (int_lists (snd rh) ! a))"

text \<open>
  The arguments of a call refer to objects of the store: the address of \<^verbatim>\<open>lmList\<close>, those of
  its entries and that of \<^verbatim>\<open>self.tipIds\<close> are allocated.
\<close>

definition valid_args :: "pyheap \<Rightarrow> nat \<Rightarrow> bool" where
  "valid_args h lmList \<longleftrightarrow>
     self_tipIds h < length (int_lists h) \<and> lmList < length (ref_lists h) \<and>
     list_all (\<lambda>p. p < length (int_lists h)) (ref_lists h ! lmList)"

text \<open>
  The store \<^verbatim>\<open>h'\<close> has every object of \<^verbatim>\<open>h\<close> with an address below \<^verbatim>\<open>n\<close> unchanged, the
  same lists of references and the same detector attribute.
\<close>

definition same_below :: "nat \<Rightarrow> pyheap \<Rightarrow> pyheap \<Rightarrow> bool" where
  "same_below n h h' \<longleftrightarrow>
     take n (int_lists h') = take n (int_lists h) \<and> ref_lists h' = ref_lists h \<and>
     self_tipIds h' = self_tipIds h \<and> length (int_lists h') \<ge> length (int_lists h)"

text \<open>
  Two stores that hold the landmarks of \<^verbatim>\<open>example_hand\<close> and the list \<^verbatim>\<open>tipIds\<close> at
  different addresses.
\<close>

definition example_heap :: pyheap where
  "example_heap =
     \<lparr> int_lists = example_hand @ [[4, 8, 12, 16, 20]],
       ref_lists = [[0, 1, 2, 3, 4, 5, 6, 7, 8, 9, 10, 11, 12, 13, 14, 15, 16, 17, 18, 19, 20]],
       self_tipIds = 21 \<rparr>"

definition example_heap2 :: pyheap where
  "example_heap2 =
     \<lparr> int_lists = [[4, 8, 12, 16, 20], [7, 7]] @ example_hand,
       ref_lists = [[], [2, 3, 4, 5, 6, 7, 8, 9, 10, 11, 12, 13, 14, 15, 16, 17, 18, 19, 20,
                        21, 22]],
       self_tipIds = 0 \<rparr>"

section \<open>Evaluation lemmas\<close>

lemma bindE_Inr [simp]: "bindE (Inr v) f = f v"
  by (simp add: bindE_def)

lemma bindE_Inl [simp]: "bindE (Inl e) f = Inl e"
  by (simp add: bindE_def)

lemma range_py_1_5: "range_py 1 5 = [1, 2, 3, 4]"
  by (simp add: range_py_def upto_rec1)

lemma getitem_nat:
  "0 \<le> i \<Longrightarrow> nat i < length xs \<Longrightarrow> getitem xs i = Inr (xs ! nat i)"
  by (auto simp: getitem_def Let_def)

lemma landmark_coord_std:
  assumes tips: "tipIds self = [4, 8, 12, 16, 20]"
    and len: "21 \<le> length lmList" and ent: "landmark_entries lmList"
    and "i \<in> {0, 1, 2, 3, 4}" and "off \<in> {0, 1, 2}" and "k \<in> {1, 2}"
  shows "landmark_coord self lmList i off k =
           Inr (lmList ! nat ([4, 8, 12, 16, 20] ! nat i - off) ! nat k)"
proof -
  have all3: "\<forall>p \<in> set lmList. length p = 3"
    using ent by (simp add: landmark_entries_def list_all_iff)
  let ?t = "[4, 8, 12, 16, 20 :: int] ! nat i"
  have t: "getitem (tipIds self) i = Inr ?t"
    using assms(4) by (auto simp: getitem_def tips)
  have rng: "0 \<le> ?t - off" "nat (?t - off) < 21"
    using assms(4,5) by auto
  have p: "getitem lmList (?t - off) = Inr (lmList ! nat (?t - off))"
    using rng len by (simp add: getitem_nat)
  have "lmList ! nat (?t - off) \<in> set lmList"
    using rng len by simp
  then have "length (lmList ! nat (?t - off)) = 3"
    using all3 by blast
  then have c: "getitem (lmList ! nat (?t - off)) k = Inr (lmList ! nat (?t - off) ! nat k)"
    using assms(6) by (auto simp: getitem_def)
  show ?thesis
    by (simp only: landmark_coord_def t p c bindE_Inr)
qed

lemma fingersUp_explicit:
  assumes "tipIds self = [4, 8, 12, 16, 20]"
    and "21 \<le> length lmList" and "landmark_entries lmList"
  shows "fingersUp self lmList handType =
           Inr [b2i (if handType = PyStr ''Right'' then lm_x lmList 4 < lm_x lmList 3
                     else lm_x lmList 4 > lm_x lmList 3),
                b2i (lm_y lmList 8 < lm_y lmList 6),
                b2i (lm_y lmList 12 < lm_y lmList 10),
                b2i (lm_y lmList 16 < lm_y lmList 14),
                b2i (lm_y lmList 20 < lm_y lmList 18)]"
  unfolding fingersUp_def range_py_1_5
  by (simp add: landmark_coord_std [OF assms] lm_x_def lm_y_def b2i_def)

lemma tipIds_init: "tipIds handDetector_init = [4, 8, 12, 16, 20]"
  by (simp add: handDetector_init_def)

lemma hand_observation_example: "hand_observation example_hand"
  by (simp add: hand_observation_def landmark_entries_def example_hand_def)

lemma mk_lmList_shape:
  "length (mk_lmList h) = length h" "landmark_entries (mk_lmList h)"
  by (auto simp: mk_lmList_def enumerate_py_def landmark_entries_def list_all_iff)

lemma mk_lmList_coords:
  assumes "i < length ps"
  shows "lm_x (mk_lmList ps) i = fst (ps ! i)" and "lm_y (mk_lmList ps) i = snd (ps ! i)"
  using assms by (simp_all add: lm_x_def lm_y_def mk_lmList_def enumerate_py_def)

lemma hand_observation_thumb: "hand_observation thumb_hand"
  by (simp add: hand_observation_def thumb_hand_def mk_lmList_shape)

lemma hand_observation_level: "hand_observation level_hand"
  by (simp add: hand_observation_def level_hand_def mk_lmList_shape)

lemma hand_observation_open: "hand_observation open_hand"
  by (simp add: hand_observation_def landmark_entries_def open_hand_def)

section \<open>Lemmas about the frame loop\<close>

lemma findPosition_hand:
  assumes "results det = Some r" and "multi_hand_landmarks r = Some hands"
    and "i < length hands"
  shows "findPosition det (int i) = Inr (mk_lmList (hands ! i))"
proof -
  have "hands \<noteq> []" using assms(3) by auto
  moreover have "getitem hands (int i) = Inr (hands ! i)"
    using assms(3) by (simp add: getitem_def)
  ultimately show ?thesis
    by (simp add: findPosition_def assms(1,2) mk_lmList_def)
qed

lemma getHandType_label:
  assumes "results det = Some r" and "multi_handedness r = Some labels"
    and "i < length labels"
  shows "getHandType det (int i) = Inr (PyStr (labels ! i))"
proof -
  have "labels \<noteq> []" using assms(3) by auto
  moreover have "getitem labels (int i) = Inr (labels ! i)"
    using assms(3) by (simp add: getitem_def)
  ultimately show ?thesis
    by (simp add: getHandType_def assms(1,2))
qed

lemma getHandType_absent:
  assumes "results det = Some r" and "\<not> truthy_list (multi_handedness r)"
  shows "getHandType det handIndex = Inr PyNone"
  using assms by (simp add: getHandType_def)

lemma hands_loop_sum:
  assumes "\<And>p t. p \<in> set ps \<Longrightarrow> hand_step det t (fst p) = Inr (t + c (fst p))"
  shows "hands_loop det ps cnt = Inr (cnt + sum_list (map (\<lambda>p. c (fst p)) ps))"
  using assms
proof (induction ps arbitrary: cnt)
  case Nil
  then show ?case by simp
next
  case (Cons p ps)
  obtain i h where p: "p = (i, h)" by (cases p)
  have "hand_step det cnt i = Inr (cnt + c i)"
    using Cons.prems [of p cnt] p by simp
  moreover have "hands_loop det ps (cnt + c i) =
      Inr (cnt + c i + sum_list (map (\<lambda>p. c (fst p)) ps))"
    using Cons.IH [of "cnt + c i"] Cons.prems by simp
  ultimately show ?case by (simp add: p)
qed

lemma enumerate_py_fst:
  "map fst (enumerate_py xs) = map int [0..<length xs]"
  by (simp add: enumerate_py_def)

lemma enumerate_py_set:
  "p \<in> set (enumerate_py xs) \<Longrightarrow> \<exists>i < length xs. fst p = int i"
  by (auto simp: enumerate_py_def set_zip)

lemma hands_loop_enumerate:
  assumes "\<And>i t. i < length hs \<Longrightarrow> hand_step det t (int i) = Inr (t + c i)"
  shows "hands_loop det (enumerate_py hs) cnt =
           Inr (cnt + sum_list (map c [0..<length hs]))"
proof -
  have step: "\<And>p t. p \<in> set (enumerate_py hs) \<Longrightarrow>
      hand_step det t (fst p) = Inr (t + (c \<circ> nat) (fst p))"
    using assms enumerate_py_set by fastforce
  have "map (\<lambda>p. (c \<circ> nat) (fst p)) (enumerate_py hs) =
        map (c \<circ> nat) (map fst (enumerate_py hs))"
    by simp
  also have "\<dots> = map c [0..<length hs]"
    by (simp add: enumerate_py_fst comp_def)
  finally show ?thesis
    using hands_loop_sum [of "enumerate_py hs" det "c \<circ> nat" cnt, OF step] by simp
qed

lemma results_findHands [simp]: "results (findHands det r) = Some r"
  by (simp add: findHands_def)

lemma tipIds_findHands [simp]: "tipIds (findHands det r) = tipIds det"
  by (simp add: findHands_def)

lemma main_iteration_no_hands:
  "no_hands r \<Longrightarrow>
   main_iteration vars r = Inr \<lparr> detector = findHands (detector vars) r, totalFingers = 0 \<rparr>"
  by (auto simp: main_iteration_def no_hands_def Let_def)

lemma main_iteration_hands:
  assumes "multi_hand_landmarks r = Some hands"
    and "\<And>i t. i < length hands \<Longrightarrow>
           hand_step (findHands (detector vars) r) t (int i) = Inr (t + c i)"
  shows "main_iteration vars r =
           Inr \<lparr> detector = findHands (detector vars) r,
                 totalFingers = sum_list (map c [0..<length hands]) \<rparr>"
proof (cases "hands = []")
  case True
  then show ?thesis
    using assms(1) by (simp add: main_iteration_no_hands no_hands_def)
next
  case False
  then show ?thesis
    using hands_loop_enumerate [of hands "findHands (detector vars) r" c 0, OF assms(2)]
    by (simp add: main_iteration_def Let_def assms(1))
qed

lemma mk_lmList_example: "mk_lmList example_pixels = example_hand"
  by code_simp

lemma mk_lmList_open: "mk_lmList open_pixels = open_hand"
  by code_simp

lemma hand_vector_frame_0:
  "hand_vector (findHands handDetector_init two_hands_frame) 0 = Inr [0, 1, 0, 0, 1]"
  by code_simp

lemma hand_vector_frame_1:
  "hand_vector (findHands handDetector_init two_hands_frame) 1 = Inr [1, 1, 1, 1, 1]"
  by code_simp

lemma labelled_two_hands_frame:
  "labelled_frame two_hands_frame [example_pixels, open_pixels] [''Right'', ''Left'']"
  by (simp add: labelled_frame_def two_hands_frame_def example_pixels_def open_pixels_def)

lemma list_of_two: "length xs = 2 \<Longrightarrow> xs = [xs ! 0, xs ! 1]"
proof -
  assume "length xs = 2"
  then obtain a b where "xs = [a, b]"
    by (cases xs; cases "tl xs") auto
  then show ?thesis by simp
qed

section \<open>The finger-state classifier\<close>

text \<open>
  In the theorems below \<^verbatim>\<open>self\<close> is a detector whose \<^verbatim>\<open>tipIds\<close> is the list
  \<^verbatim>\<open>[4, 8, 12, 16, 20]\<close> that \<^verbatim>\<open>__init__\<close> stores, whatever \<^verbatim>\<open>results\<close> it holds, and a finger
  is "true" in the returned vector when its entry is 1.
\<close>

text \<open>
  C1. For every 21-landmark hand observation \<^verbatim>\<open>fingersUp\<close> returns a vector whose entry 0
  is 1 for handedness "Right" exactly when the x of landmark 4 is strictly less than the x of
  landmark 3, and for handedness "Left" exactly when it is strictly greater; otherwise the
  entry is 0.
\<close>

theorem C1_thumb_rule:
  assumes "tipIds self = [4, 8, 12, 16, 20]" and "hand_observation lmList"
  shows "(\<exists>v. fingersUp self lmList (PyStr ''Right'') = Inr v \<and> v ! 0 \<in> {0, 1} \<and>
              (v ! 0 = 1 \<longleftrightarrow> lm_x lmList 4 < lm_x lmList 3)) \<and>
         (\<exists>v. fingersUp self lmList (PyStr ''Left'') = Inr v \<and> v ! 0 \<in> {0, 1} \<and>
              (v ! 0 = 1 \<longleftrightarrow> lm_x lmList 4 > lm_x lmList 3))"
proof -
  have shape: "21 \<le> length lmList" "landmark_entries lmList"
    using assms(2) by (simp_all add: hand_observation_def)
  show ?thesis
    by (simp add: fingersUp_explicit [OF assms(1) shape] b2i_def)
qed

theorem C1_thumb_rule_witness:
  "tipIds handDetector_init = [4, 8, 12, 16, 20] \<and> hand_observation thumb_hand \<and>
   lm_x thumb_hand 4 = 100 \<and> lm_x thumb_hand 3 = 150 \<and>
   (\<exists>v. fingersUp handDetector_init thumb_hand (PyStr ''Right'') = Inr v \<and> v ! 0 = 1) \<and>
   (\<exists>v. fingersUp handDetector_init thumb_hand (PyStr ''Left'') = Inr v \<and> v ! 0 = 0)"
proof -
  have x: "lm_x thumb_hand 4 = 100" "lm_x thumb_hand 3 = 150"
    by (simp_all add: thumb_hand_def mk_lmList_coords)
  from C1_thumb_rule [OF tipIds_init hand_observation_thumb]
  obtain v w where
    v: "fingersUp handDetector_init thumb_hand (PyStr ''Right'') = Inr v"
      "v ! 0 = 1 \<longleftrightarrow> lm_x thumb_hand 4 < lm_x thumb_hand 3"
    and w: "fingersUp handDetector_init thumb_hand (PyStr ''Left'') = Inr w"
      "w ! 0 \<in> {0, 1}" "w ! 0 = 1 \<longleftrightarrow> lm_x thumb_hand 4 > lm_x thumb_hand 3"
    by blast
  have "v ! 0 = 1" using v(2) x by simp
  moreover have "w ! 0 = 0" using w(2,3) x by auto
  ultimately show ?thesis
    using v(1) w(1) x tipIds_init hand_observation_thumb by simp
qed

text \<open>
  C2. For every 21-landmark hand observation and every handedness value (so for "Left" and
  for "Right"), \<^verbatim>\<open>fingersUp\<close> returns a vector whose entries 1 to 4 (index, middle, ring,
  pinky) are 1 exactly when the y of the tip landmark (8, 12, 16, 20) is strictly less than
  the y of the reference landmark (6, 10, 14, 18), and 0 otherwise; when all four tips are
  strictly above their references the four entries are all 1.
\<close>

theorem C2_other_fingers_rule:
  assumes "tipIds self = [4, 8, 12, 16, 20]" and "hand_observation lmList"
  shows "\<exists>v. fingersUp self lmList handType = Inr v \<and>
              v ! 1 = b2i (lm_y lmList 8 < lm_y lmList 6) \<and>
              v ! 2 = b2i (lm_y lmList 12 < lm_y lmList 10) \<and>
              v ! 3 = b2i (lm_y lmList 16 < lm_y lmList 14) \<and>
              v ! 4 = b2i (lm_y lmList 20 < lm_y lmList 18) \<and>
              (lm_y lmList 8 < lm_y lmList 6 \<and> lm_y lmList 12 < lm_y lmList 10 \<and>
               lm_y lmList 16 < lm_y lmList 14 \<and> lm_y lmList 20 < lm_y lmList 18
               \<longrightarrow> drop 1 v = [1, 1, 1, 1])"
proof -
  have shape: "21 \<le> length lmList" "landmark_entries lmList"
    using assms(2) by (simp_all add: hand_observation_def)
  show ?thesis
    by (simp add: fingersUp_explicit [OF assms(1) shape] b2i_def)
qed

theorem C2_other_fingers_rule_witness:
  "tipIds handDetector_init = [4, 8, 12, 16, 20] \<and> hand_observation open_hand \<and>
   (\<exists>v. fingersUp handDetector_init open_hand (PyStr ''Left'') = Inr v \<and>
        drop 1 v = [1, 1, 1, 1]) \<and>
   (\<exists>v. fingersUp handDetector_init open_hand (PyStr ''Right'') = Inr v \<and>
        drop 1 v = [1, 1, 1, 1])"
proof -
  have y: "lm_y open_hand 8 < lm_y open_hand 6" "lm_y open_hand 12 < lm_y open_hand 10"
    "lm_y open_hand 16 < lm_y open_hand 14" "lm_y open_hand 20 < lm_y open_hand 18"
    by (simp_all add: lm_y_def open_hand_def)
  show ?thesis
    using C2_other_fingers_rule [OF tipIds_init hand_observation_open, of "PyStr ''Left''"]
      C2_other_fingers_rule [OF tipIds_init hand_observation_open, of "PyStr ''Right''"]
      y tipIds_init hand_observation_open
    by auto
qed

text \<open>
  C4 (as amended). For every 21-landmark hand observation with the coordinates of the
  end-to-end example (thumb tip x = 300, reference x = 250; index tip y = 120, reference
  y = 200; middle tip y = 210, reference y = 180; ring tip y = 300, reference y = 150; pinky
  tip y = 50, reference y = 300) and handedness "Right", \<^verbatim>\<open>fingersUp\<close> returns
  \<^verbatim>\<open>[0, 1, 0, 0, 1]\<close>: the thumb is not up, since 300 is not less than 250, and
  \<^verbatim>\<open>fingers.count(1)\<close> is 2.
\<close>

theorem C4_example:
  assumes "tipIds self = [4, 8, 12, 16, 20]" and "hand_observation lmList"
    and "lm_x lmList 4 = 300" and "lm_x lmList 3 = 250"
    and "lm_y lmList 8 = 120" and "lm_y lmList 6 = 200"
    and "lm_y lmList 12 = 210" and "lm_y lmList 10 = 180"
    and "lm_y lmList 16 = 300" and "lm_y lmList 14 = 150"
    and "lm_y lmList 20 = 50" and "lm_y lmList 18 = 300"
  shows "\<exists>fingers. fingersUp self lmList (PyStr ''Right'') = Inr fingers \<and>
           fingers = [0, 1, 0, 0, 1] \<and> count_py fingers 1 = 2"
proof -
  have shape: "21 \<le> length lmList" "landmark_entries lmList"
    using assms(2) by (simp_all add: hand_observation_def)
  have "fingersUp self lmList (PyStr ''Right'') = Inr [0, 1, 0, 0, 1]"
    by (simp add: fingersUp_explicit [OF assms(1) shape] b2i_def assms(3-12))
  moreover have "count_py [0, 1, 0, 0, 1] 1 = 2"
    by (simp add: count_py_def)
  ultimately show ?thesis by simp
qed

lemma example_hand_coords:
  "lm_x example_hand 4 = 300" "lm_x example_hand 3 = 250"
  "lm_y example_hand 8 = 120" "lm_y example_hand 6 = 200"
  "lm_y example_hand 12 = 210" "lm_y example_hand 10 = 180"
  "lm_y example_hand 16 = 300" "lm_y example_hand 14 = 150"
  "lm_y example_hand 20 = 50" "lm_y example_hand 18 = 300"
  by (simp_all add: lm_x_def lm_y_def example_hand_def)

theorem C4_example_witness:
  "tipIds handDetector_init = [4, 8, 12, 16, 20] \<and> hand_observation example_hand \<and>
   lm_x example_hand 4 = 300 \<and> lm_x example_hand 3 = 250 \<and>
   lm_y example_hand 8 = 120 \<and> lm_y example_hand 6 = 200 \<and>
   lm_y example_hand 12 = 210 \<and> lm_y example_hand 10 = 180 \<and>
   lm_y example_hand 16 = 300 \<and> lm_y example_hand 14 = 150 \<and>
   lm_y example_hand 20 = 50 \<and> lm_y example_hand 18 = 300 \<and>
   (\<exists>fingers. fingersUp handDetector_init example_hand (PyStr ''Right'') = Inr fingers \<and>
      fingers = [0, 1, 0, 0, 1] \<and> count_py fingers 1 = 2)"
  using C4_example [OF tipIds_init hand_observation_example example_hand_coords]
    tipIds_init hand_observation_example example_hand_coords
  by simp

text \<open>
  C4 as stated fails: on the example input with handedness "Right" the result is not
  \<^verbatim>\<open>[1, 1, 0, 0, 1]\<close>, and a frame whose only hand is the example hand, labelled "Right",
  does not count 3 fingers.
\<close>

theorem C4_counterexample:
  "fingersUp handDetector_init example_hand (PyStr ''Right'') \<noteq> Inr [1, 1, 0, 0, 1] \<and>
   main_iteration \<lparr> detector = handDetector_init, totalFingers = 0 \<rparr> example_frame \<noteq>
     Inr \<lparr> detector = findHands handDetector_init example_frame, totalFingers = 3 \<rparr>"
proof -
  have "fingersUp handDetector_init example_hand (PyStr ''Right'') = Inr [0, 1, 0, 0, 1]"
    by (simp add: fingersUp_explicit [OF tipIds_init] example_hand_def landmark_entries_def
        lm_x_def lm_y_def b2i_def)
  moreover have
    "main_iteration \<lparr> detector = handDetector_init, totalFingers = 0 \<rparr> example_frame =
       Inr \<lparr> detector = findHands handDetector_init example_frame, totalFingers = 2 \<rparr>"
    by code_simp
  ultimately show ?thesis by simp
qed

text \<open>
  C5. For every 21-landmark hand observation and handedness "Left" or "Right",
  \<^verbatim>\<open>fingersUp\<close> returns a vector in which a finger whose compared coordinates are equal is
  0: the thumb when the x of landmarks 4 and 3 are equal, the index, middle, ring and pinky
  when the y of tip and reference are equal.
\<close>

theorem C5_ties_not_extended:
  assumes "tipIds self = [4, 8, 12, 16, 20]" and "hand_observation lmList"
    and "handType = PyStr ''Left'' \<or> handType = PyStr ''Right''"
  shows "\<exists>v. fingersUp self lmList handType = Inr v \<and>
              (lm_x lmList 4 = lm_x lmList 3 \<longrightarrow> v ! 0 = 0) \<and>
              (lm_y lmList 8 = lm_y lmList 6 \<longrightarrow> v ! 1 = 0) \<and>
              (lm_y lmList 12 = lm_y lmList 10 \<longrightarrow> v ! 2 = 0) \<and>
              (lm_y lmList 16 = lm_y lmList 14 \<longrightarrow> v ! 3 = 0) \<and>
              (lm_y lmList 20 = lm_y lmList 18 \<longrightarrow> v ! 4 = 0)"
proof -
  have shape: "21 \<le> length lmList" "landmark_entries lmList"
    using assms(2) by (simp_all add: hand_observation_def)
  show ?thesis
    by (simp add: fingersUp_explicit [OF assms(1) shape] b2i_def)
qed

theorem C5_ties_not_extended_witness:
  "tipIds handDetector_init = [4, 8, 12, 16, 20] \<and> hand_observation level_hand \<and>
   lm_x level_hand 4 = lm_x level_hand 3 \<and> lm_y level_hand 8 = lm_y level_hand 6 \<and>
   lm_y level_hand 12 = lm_y level_hand 10 \<and> lm_y level_hand 16 = lm_y level_hand 14 \<and>
   lm_y level_hand 20 = lm_y level_hand 18 \<and>
   (\<exists>v. fingersUp handDetector_init level_hand (PyStr ''Right'') = Inr v \<and>
        v ! 0 = 0 \<and> v ! 1 = 0 \<and> v ! 2 = 0 \<and> v ! 3 = 0 \<and> v ! 4 = 0)"
proof -
  have eq: "lm_x level_hand 4 = lm_x level_hand 3" "lm_y level_hand 8 = lm_y level_hand 6"
    "lm_y level_hand 12 = lm_y level_hand 10" "lm_y level_hand 16 = lm_y level_hand 14"
    "lm_y level_hand 20 = lm_y level_hand 18"
    by (simp_all add: level_hand_def mk_lmList_coords)
  show ?thesis
    using C5_ties_not_extended [OF tipIds_init hand_observation_level,
        of "PyStr ''Right''"] eq tipIds_init hand_observation_level
    by auto
qed

text \<open>
  C6. For every 21-landmark hand observation and handedness "Left" or "Right",
  \<^verbatim>\<open>fingersUp\<close> returns a vector of exactly five entries, which are in this order the
  state of the thumb (landmarks 4 and 3, by the rule of the handedness), of the index
  (8 and 6), of the middle (12 and 10), of the ring (16 and 14) and of the pinky (20 and 18).
\<close>

theorem C6_length_and_order:
  assumes "tipIds self = [4, 8, 12, 16, 20]" and "hand_observation lmList"
    and "handType = PyStr ''Left'' \<or> handType = PyStr ''Right''"
  shows "\<exists>v. fingersUp self lmList handType = Inr v \<and> length v = 5 \<and>
              v = [b2i (if handType = PyStr ''Right'' then lm_x lmList 4 < lm_x lmList 3
                        else lm_x lmList 3 < lm_x lmList 4),
                   b2i (lm_y lmList 8 < lm_y lmList 6),
                   b2i (lm_y lmList 12 < lm_y lmList 10),
                   b2i (lm_y lmList 16 < lm_y lmList 14),
                   b2i (lm_y lmList 20 < lm_y lmList 18)]"
proof -
  have shape: "21 \<le> length lmList" "landmark_entries lmList"
    using assms(2) by (simp_all add: hand_observation_def)
  show ?thesis
    by (simp add: fingersUp_explicit [OF assms(1) shape])
qed

theorem C6_length_and_order_witness:
  "tipIds handDetector_init = [4, 8, 12, 16, 20] \<and> hand_observation example_hand \<and>
   (\<exists>v. fingersUp handDetector_init example_hand (PyStr ''Left'') = Inr v \<and> length v = 5 \<and>
        v = [1, 1, 0, 0, 1])"
proof -
  from C6_length_and_order [OF tipIds_init hand_observation_example, of "PyStr ''Left''"]
  have "\<exists>v. fingersUp handDetector_init example_hand (PyStr ''Left'') = Inr v \<and>
            length v = 5 \<and> v = [1, 1, 0, 0, 1]"
    by (simp add: example_hand_coords b2i_def)
  then show ?thesis
    using tipIds_init hand_observation_example by simp
qed

text \<open>
  C9. For every 21-landmark hand observation and every handedness argument other than the
  string "Right" (\<^verbatim>\<open>None\<close>, "left", a value of another type), \<^verbatim>\<open>fingersUp\<close> raises nothing
  and returns a five-entry vector whose thumb entry follows the Left-hand rule (1 exactly
  when the x of landmark 4 is strictly greater than the x of landmark 3); the other four
  entries follow the y rule.
\<close>

theorem C9_no_handedness_validation:
  assumes "tipIds self = [4, 8, 12, 16, 20]" and "hand_observation lmList"
    and "handType \<noteq> PyStr ''Right''"
  shows "fingersUp self lmList handType =
           Inr [b2i (lm_x lmList 4 > lm_x lmList 3),
                b2i (lm_y lmList 8 < lm_y lmList 6),
                b2i (lm_y lmList 12 < lm_y lmList 10),
                b2i (lm_y lmList 16 < lm_y lmList 14),
                b2i (lm_y lmList 20 < lm_y lmList 18)] \<and>
         fingersUp self lmList handType = fingersUp self lmList (PyStr ''Left'')"
proof -
  have shape: "21 \<le> length lmList" "landmark_entries lmList"
    using assms(2) by (simp_all add: hand_observation_def)
  show ?thesis
    using assms(3) by (simp add: fingersUp_explicit [OF assms(1) shape])
qed

theorem C9_no_handedness_validation_witness:
  "tipIds handDetector_init = [4, 8, 12, 16, 20] \<and> hand_observation example_hand \<and>
   PyNone \<noteq> PyStr ''Right'' \<and> PyStr ''left'' \<noteq> PyStr ''Right'' \<and>
   PyInt 7 \<noteq> PyStr ''Right'' \<and>
   fingersUp handDetector_init example_hand PyNone = Inr [1, 1, 0, 0, 1] \<and>
   fingersUp handDetector_init example_hand (PyStr ''left'') = Inr [1, 1, 0, 0, 1] \<and>
   fingersUp handDetector_init example_hand (PyInt 7) = Inr [1, 1, 0, 0, 1]"
  using C9_no_handedness_validation [OF tipIds_init hand_observation_example, of PyNone]
    C9_no_handedness_validation [OF tipIds_init hand_observation_example, of "PyStr ''left''"]
    C9_no_handedness_validation [OF tipIds_init hand_observation_example, of "PyInt 7"]
    tipIds_init hand_observation_example
  by (simp add: example_hand_coords b2i_def)

text \<open>
  C10. The result of \<^verbatim>\<open>fingersUp\<close> depends only on the x of landmarks 3 and 4 and the y of
  landmarks 6, 8, 10, 12, 14, 16, 18 and 20: two landmark lists of length at least 21 that
  agree on these ten coordinates give the same vector for the same handedness, whatever
  their other entries (landmark 2 among them) and their lengths are.
\<close>

theorem C10_reads_ten_coordinates:
  assumes "tipIds self = [4, 8, 12, 16, 20]"
    and "21 \<le> length l1" and "landmark_entries l1"
    and "21 \<le> length l2" and "landmark_entries l2"
    and "lm_x l1 3 = lm_x l2 3" and "lm_x l1 4 = lm_x l2 4"
    and "list_all (\<lambda>i. lm_y l1 i = lm_y l2 i) [6, 8, 10, 12, 14, 16, 18, 20]"
  shows "fingersUp self l1 handType = fingersUp self l2 handType \<and>
         (\<exists>v. fingersUp self l1 handType = Inr v)"
  using assms(6-8)
  by (simp add: fingersUp_explicit [OF assms(1-3)] fingersUp_explicit [OF assms(1,4,5)])

theorem C10_reads_ten_coordinates_witness:
  "tipIds handDetector_init = [4, 8, 12, 16, 20] \<and>
   21 \<le> length example_hand \<and> landmark_entries example_hand \<and>
   21 \<le> length (example_hand [2 := [2, 640, 480]] @ [[21, 5, 5]]) \<and>
   landmark_entries (example_hand [2 := [2, 640, 480]] @ [[21, 5, 5]]) \<and>
   example_hand ! 2 \<noteq> (example_hand [2 := [2, 640, 480]] @ [[21, 5, 5]]) ! 2 \<and>
   fingersUp handDetector_init example_hand (PyStr ''Right'') =
     fingersUp handDetector_init (example_hand [2 := [2, 640, 480]] @ [[21, 5, 5]])
       (PyStr ''Right'')"
proof -
  let ?l2 = "example_hand [2 := [2, 640, 480]] @ [[21, 5, 5]]"
  have s1: "21 \<le> length example_hand" "landmark_entries example_hand"
    using hand_observation_example by (simp_all add: hand_observation_def)
  have s2: "21 \<le> length ?l2" "landmark_entries ?l2"
    by (simp_all add: example_hand_def landmark_entries_def)
  have agree: "lm_x example_hand 3 = lm_x ?l2 3" "lm_x example_hand 4 = lm_x ?l2 4"
    "list_all (\<lambda>i. lm_y example_hand i = lm_y ?l2 i) [6, 8, 10, 12, 14, 16, 18, 20]"
    by (simp_all add: lm_x_def lm_y_def example_hand_def)
  have diff: "example_hand ! 2 \<noteq> ?l2 ! 2"
    by (simp add: example_hand_def)
  show ?thesis
    using C10_reads_ten_coordinates [OF tipIds_init s1 s2 agree, of "PyStr ''Right''"]
      tipIds_init s1 s2 diff
    by simp
qed

section \<open>The frame-level count\<close>

text \<open>
  C7. Whatever the variables of \<^verbatim>\<open>main\<close> hold from earlier frames, one iteration on a
  frame in which every detected hand has its 21 landmarks and its handedness label leaves in
  \<^verbatim>\<open>totalFingers\<close> the sum, over the finger-state vectors \<^verbatim>\<open>vs\<close> of all hands of the frame,
  of the number of entries 1; and a frame with no detected hand leaves 0, without error.
\<close>

theorem C7_aggregate_count:
  assumes "tipIds (detector vars) = [4, 8, 12, 16, 20]"
  shows "(labelled_frame r hands labels \<longrightarrow>
           (\<exists>vs. length vs = length hands \<and>
                 (\<forall>i < length hands.
                    hand_vector (findHands (detector vars) r) (int i) = Inr (vs ! i)) \<and>
                 main_iteration vars r =
                   Inr \<lparr> detector = findHands (detector vars) r,
                         totalFingers = sum_list (map (\<lambda>v. count_py v 1) vs) \<rparr>)) \<and>
         (no_hands r \<longrightarrow>
           main_iteration vars r =
             Inr \<lparr> detector = findHands (detector vars) r, totalFingers = 0 \<rparr>)"
proof (intro conjI impI)
  assume "no_hands r"
  then show "main_iteration vars r =
      Inr \<lparr> detector = findHands (detector vars) r, totalFingers = 0 \<rparr>"
    by (rule main_iteration_no_hands)
next
  assume fr: "labelled_frame r hands labels"
  let ?det = "findHands (detector vars) r"
  let ?vec = "\<lambda>i. [b2i (if PyStr (labels ! i) = PyStr ''Right''
                        then lm_x (mk_lmList (hands ! i)) 4 < lm_x (mk_lmList (hands ! i)) 3
                        else lm_x (mk_lmList (hands ! i)) 4 > lm_x (mk_lmList (hands ! i)) 3),
                   b2i (lm_y (mk_lmList (hands ! i)) 8 < lm_y (mk_lmList (hands ! i)) 6),
                   b2i (lm_y (mk_lmList (hands ! i)) 12 < lm_y (mk_lmList (hands ! i)) 10),
                   b2i (lm_y (mk_lmList (hands ! i)) 16 < lm_y (mk_lmList (hands ! i)) 14),
                   b2i (lm_y (mk_lmList (hands ! i)) 20 < lm_y (mk_lmList (hands ! i)) 18)]"
  have h: "multi_hand_landmarks r = Some hands" and l: "multi_handedness r = Some labels"
    and len: "length hands \<le> length labels"
    and h21: "\<And>i. i < length hands \<Longrightarrow> length (hands ! i) = 21"
    and lne: "\<And>i. i < length hands \<Longrightarrow> labels ! i \<noteq> []"
    using fr by (auto simp: labelled_frame_def list_all_length)
  have tips: "tipIds ?det = [4, 8, 12, 16, 20]"
    using assms by simp
  have fp: "findPosition ?det (int i) = Inr (mk_lmList (hands ! i))" if "i < length hands" for i
    using findPosition_hand [of ?det r hands i] h that by simp
  have ht: "getHandType ?det (int i) = Inr (PyStr (labels ! i))" if "i < length hands" for i
    using getHandType_label [of ?det r labels i] l len that by simp
  have fu: "fingersUp ?det (mk_lmList (hands ! i)) (PyStr (labels ! i)) = Inr (?vec i)"
    if "i < length hands" for i
    using fingersUp_explicit [OF tips, of "mk_lmList (hands ! i)" "PyStr (labels ! i)"]
      h21 [OF that] by (simp add: mk_lmList_shape)
  have step: "hand_step ?det t (int i) = Inr (t + count_py (?vec i) 1)"
    if "i < length hands" for i t
    using fp [OF that] ht [OF that] fu [OF that] lne [OF that]
    by (simp add: hand_step_def)
  have vec: "hand_vector ?det (int i) = Inr (map ?vec [0..<length hands] ! i)"
    if "i < length hands" for i
    using fp [OF that] ht [OF that] fu [OF that] that
    by (simp add: hand_vector_def)
  have "main_iteration vars r =
      Inr \<lparr> detector = ?det,
            totalFingers = sum_list (map (\<lambda>i. count_py (?vec i) 1) [0..<length hands]) \<rparr>"
    using main_iteration_hands [OF h, of vars "\<lambda>i. count_py (?vec i) 1"] step by blast
  then have "main_iteration vars r =
      Inr \<lparr> detector = ?det,
            totalFingers =
              sum_list (map (\<lambda>v. count_py v 1) (map ?vec [0..<length hands])) \<rparr>"
    by (simp add: comp_def)
  then show "\<exists>vs. length vs = length hands \<and>
       (\<forall>i < length hands. hand_vector ?det (int i) = Inr (vs ! i)) \<and>
       main_iteration vars r =
         Inr \<lparr> detector = ?det, totalFingers = sum_list (map (\<lambda>v. count_py v 1) vs) \<rparr>"
    using vec by (intro exI [of _ "map ?vec [0..<length hands]"]) simp
qed

theorem C7_aggregate_count_witness:
  "tipIds (detector \<lparr> detector = handDetector_init, totalFingers = 9 \<rparr>) = [4, 8, 12, 16, 20] \<and>
   labelled_frame two_hands_frame [example_pixels, open_pixels] [''Right'', ''Left''] \<and>
   main_iteration \<lparr> detector = handDetector_init, totalFingers = 9 \<rparr> two_hands_frame =
     Inr \<lparr> detector = findHands handDetector_init two_hands_frame, totalFingers = 7 \<rparr> \<and>
   no_hands empty_frame \<and>
   main_iteration \<lparr> detector = handDetector_init, totalFingers = 9 \<rparr> empty_frame =
     Inr \<lparr> detector = findHands handDetector_init empty_frame, totalFingers = 0 \<rparr>"
proof -
  let ?vars = "\<lparr> detector = handDetector_init, totalFingers = 9 \<rparr>"
  let ?det = "findHands handDetector_init two_hands_frame"
  let ?hs = "[example_pixels, open_pixels]"
  have tips: "tipIds (detector ?vars) = [4, 8, 12, 16, 20]"
    by (simp add: tipIds_init)
  have nh: "no_hands empty_frame"
    by (simp add: no_hands_def empty_frame_def)
  note ex = C7_aggregate_count [OF tips, of two_hands_frame ?hs "[''Right'', ''Left'']",
      THEN conjunct1, THEN mp, OF labelled_two_hands_frame]
  from ex obtain vs where all: "length vs = length ?hs \<and>
          (\<forall>i < length ?hs.
             hand_vector (findHands (detector ?vars) two_hands_frame) (int i) = Inr (vs ! i)) \<and>
          main_iteration ?vars two_hands_frame =
            Inr \<lparr> detector = findHands (detector ?vars) two_hands_frame,
                  totalFingers = sum_list (map (\<lambda>v. count_py v 1) vs) \<rparr>" ..
  have len: "length vs = 2"
    using all by simp
  have hv: "\<forall>i < 2. hand_vector ?det (int i) = Inr (vs ! i)"
    using all by simp
  have mi: "main_iteration ?vars two_hands_frame =
       Inr \<lparr> detector = ?det, totalFingers = sum_list (map (\<lambda>v. count_py v 1) vs) \<rparr>"
    using all by simp
  have "hand_vector ?det (int 0) = Inr (vs ! 0)" "hand_vector ?det (int 1) = Inr (vs ! 1)"
    using hv [rule_format, of 0] hv [rule_format, of 1] by simp_all
  then have "vs ! 0 = [0, 1, 0, 0, 1]" "vs ! 1 = [1, 1, 1, 1, 1]"
    using hand_vector_frame_0 hand_vector_frame_1 by simp_all
  then have "vs = [[0, 1, 0, 0, 1], [1, 1, 1, 1, 1]]"
    using list_of_two [OF len] by simp
  then have "main_iteration ?vars two_hands_frame =
      Inr \<lparr> detector = ?det, totalFingers = 7 \<rparr>"
    using mi by (simp add: count_py_def)
  moreover have "main_iteration ?vars empty_frame =
      Inr \<lparr> detector = findHands handDetector_init empty_frame, totalFingers = 0 \<rparr>"
    using C7_aggregate_count [OF tips, of empty_frame, THEN conjunct2, THEN mp, OF nh]
    by simp
  ultimately show ?thesis
    using tips labelled_two_hands_frame nh by simp
qed

section \<open>Hands without handedness\<close>

text \<open>
  C3 (as amended). When the provider gives no handedness data for a frame all of whose hands
  have their 21 landmarks, \<^verbatim>\<open>getHandType\<close> returns \<^verbatim>\<open>None\<close> for each of its hands.
  \<^verbatim>\<open>fingersUp\<close> does not reject that value: on the 21 landmarks of such a hand it raises
  nothing and returns the five-entry vector of the Left-hand thumb rule. The guard is in
  \<^verbatim>\<open>main\<close>, which does not call \<^verbatim>\<open>fingersUp\<close> for a hand without handedness: the iteration
  ends without error and with a count of 0.
\<close>

theorem C3_unknown_handedness:
  assumes "tipIds (detector vars) = [4, 8, 12, 16, 20]"
    and "multi_hand_landmarks r = Some hands"
    and "list_all (\<lambda>h. length h = 21) hands"
    and "\<not> truthy_list (multi_handedness r)"
    and "i < length hands"
  shows "getHandType (findHands (detector vars) r) (int i) = Inr PyNone \<and>
         (\<exists>v. fingersUp (findHands (detector vars) r) (mk_lmList (hands ! i)) PyNone = Inr v \<and>
              length v = 5 \<and>
              fingersUp (findHands (detector vars) r) (mk_lmList (hands ! i)) (PyStr ''Left'')
                = Inr v) \<and>
         main_iteration vars r =
           Inr \<lparr> detector = findHands (detector vars) r, totalFingers = 0 \<rparr>"
proof -
  let ?det = "findHands (detector vars) r"
  have tips: "tipIds ?det = [4, 8, 12, 16, 20]"
    using assms(1) by simp
  have none: "getHandType ?det k = Inr PyNone" for k
    using getHandType_absent [of ?det r k] assms(4) by simp
  have h21: "length (hands ! i) = 21"
    using assms(3,5) by (simp add: list_all_length)
  have shape: "21 \<le> length (mk_lmList (hands ! i))" "landmark_entries (mk_lmList (hands ! i))"
    using h21 by (simp_all add: mk_lmList_shape)
  have vec: "\<exists>v. fingersUp ?det (mk_lmList (hands ! i)) PyNone = Inr v \<and> length v = 5 \<and>
      fingersUp ?det (mk_lmList (hands ! i)) (PyStr ''Left'') = Inr v"
    by (simp add: fingersUp_explicit [OF tips shape])
  have step: "hand_step ?det t (int j) = Inr (t + (\<lambda>_. 0) j)" if "j < length hands" for j t
    using findPosition_hand [of ?det r hands j] assms(2) that none [of "int j"]
    by (simp add: hand_step_def)
  have "main_iteration vars r = Inr \<lparr> detector = ?det, totalFingers = 0 \<rparr>"
    using main_iteration_hands [OF assms(2), of vars "\<lambda>_. 0"] step by simp
  then show ?thesis
    using none vec by simp
qed

theorem C3_unknown_handedness_witness:
  "tipIds (detector \<lparr> detector = handDetector_init, totalFingers = 9 \<rparr>) = [4, 8, 12, 16, 20] \<and>
   multi_hand_landmarks unlabelled_frame = Some [open_pixels] \<and>
   list_all (\<lambda>h. length h = 21) [open_pixels] \<and>
   \<not> truthy_list (multi_handedness unlabelled_frame) \<and>
   (0::nat) < length [open_pixels] \<and>
   getHandType (findHands handDetector_init unlabelled_frame) 0 = Inr PyNone \<and>
   main_iteration \<lparr> detector = handDetector_init, totalFingers = 9 \<rparr> unlabelled_frame =
     Inr \<lparr> detector = findHands handDetector_init unlabelled_frame, totalFingers = 0 \<rparr>"
proof -
  let ?vars = "\<lparr> detector = handDetector_init, totalFingers = 9 \<rparr>"
  have a: "tipIds (detector ?vars) = [4, 8, 12, 16, 20]"
    by (simp add: tipIds_init)
  have b: "multi_hand_landmarks unlabelled_frame = Some [open_pixels]"
    and d: "\<not> truthy_list (multi_handedness unlabelled_frame)"
    by (simp_all add: unlabelled_frame_def)
  have c: "list_all (\<lambda>h. length h = 21) [open_pixels]"
    and e: "(0::nat) < length [open_pixels]"
    by (simp_all add: open_pixels_def)
  show ?thesis
    using C3_unknown_handedness [OF a b c d e] a b c d e by simp
qed

text \<open>
  C3 as stated fails: called with \<^verbatim>\<open>None\<close> as handedness on a 21-landmark hand,
  \<^verbatim>\<open>fingersUp\<close> raises no error and returns a vector, here with the thumb judged by the
  Left-hand rule.
\<close>

theorem C3_counterexample:
  "fingersUp handDetector_init open_hand PyNone = Inr [1, 1, 1, 1, 1]"
  by (simp add: fingersUp_explicit [OF tipIds_init] open_hand_def landmark_entries_def
      lm_x_def lm_y_def b2i_def)

section \<open>Purity of the classifier\<close>

lemma same_below_refl: "same_below n h h"
  by (simp add: same_below_def)

lemma same_below_trans: "same_below n h h' \<Longrightarrow> same_below n h' h'' \<Longrightarrow> same_below n h h''"
  by (simp add: same_below_def)

lemma same_below_append: "n \<le> a \<Longrightarrow> same_below n h (list_append h a v)"
  by (simp add: same_below_def list_append_def)

lemma same_below_new: "same_below (length (int_lists h)) h (snd (new_list h))"
  by (simp add: same_below_def new_list_def)

lemma fingers_loop_heap_frame:
  "n \<le> a \<Longrightarrow> same_below n h (snd (fingers_loop_heap h lm ids a))"
proof (induction ids arbitrary: h)
  case Nil
  then show ?case by (simp add: same_below_refl)
next
  case (Cons i ids)
  show ?case
    using Cons.IH [OF Cons.prems] same_below_append [OF Cons.prems]
    by (auto simp: same_below_refl split: sum.splits intro: same_below_trans)
qed

lemma fingersUp_heap_frame:
  "same_below (length (int_lists h)) h (snd (fingersUp_heap h lm ht))"
proof -
  let ?n = "length (int_lists h)"
  let ?h1 = "snd (new_list h)"
  have a: "fst (new_list h) = ?n" by (simp add: new_list_def)
  have 1: "same_below ?n h ?h1" by (rule same_below_new)
  have 2: "same_below ?n ?h1 (snd (fingers_loop_heap (list_append ?h1 ?n v) lm ids ?n))"
    for v ids
    using same_below_append [of ?n ?n ?h1 v] fingers_loop_heap_frame [of ?n ?n]
    by (blast intro: same_below_trans)
  show ?thesis
    unfolding fingersUp_heap_def Let_def
    using 1 2 a
    by (auto simp: case_prod_beta split: sum.splits intro: same_below_trans)
qed


lemma getitem_map:
  "getitem (map f xs) j = (case getitem xs j of Inl e \<Rightarrow> Inl e | Inr x \<Rightarrow> Inr (f x))"
  by (auto simp: getitem_def)

lemma landmark_coord_heap_abs:
  "tipIds self = int_lists h ! self_tipIds h \<Longrightarrow>
   landmark_coord_heap h lm i off k = landmark_coord self (abs_lmList h lm) i off k"
  by (simp add: landmark_coord_heap_def landmark_coord_def abs_lmList_def getitem_map
      bindE_def split: sum.splits)

lemma same_below_nth:
  "same_below n h h' \<Longrightarrow> p < n \<Longrightarrow> n \<le> length (int_lists h) \<Longrightarrow>
   int_lists h' ! p = int_lists h ! p"
proof -
  assume sb: "same_below n h h'" and p: "p < n" and n: "n \<le> length (int_lists h)"
  have "take n (int_lists h') ! p = take n (int_lists h) ! p"
    using sb by (simp add: same_below_def)
  then show ?thesis using p by simp
qed

lemma same_below_abs:
  assumes "same_below n h h'" and "n \<le> length (int_lists h)"
    and "self_tipIds h < n" and "list_all (\<lambda>p. p < n) (ref_lists h ! lm)"
  shows "abs_lmList h' lm = abs_lmList h lm"
    and "int_lists h' ! self_tipIds h' = int_lists h ! self_tipIds h"
proof -
  have r: "ref_lists h' = ref_lists h" and t: "self_tipIds h' = self_tipIds h"
    using assms(1) by (simp_all add: same_below_def)
  show "abs_lmList h' lm = abs_lmList h lm"
    using assms(4) same_below_nth [OF assms(1) _ assms(2)]
    by (simp add: abs_lmList_def r list_all_iff)
  show "int_lists h' ! self_tipIds h' = int_lists h ! self_tipIds h"
    using same_below_nth [OF assms(1) assms(3) assms(2)] by (simp add: t)
qed

lemma fingers_loop_heap_abs:
  assumes "tipIds self = int_lists h0 ! self_tipIds h0"
    and "n \<le> length (int_lists h0)"
    and "self_tipIds h0 < n" and "list_all (\<lambda>p. p < n) (ref_lists h0 ! lm)"
    and "n \<le> a"
  shows "same_below n h0 h \<Longrightarrow> a < length (int_lists h) \<Longrightarrow>
         abs_result (fingers_loop_heap h lm ids a) =
           fingers_loop self (abs_lmList h0 lm) ids (int_lists h ! a)"
proof (induction ids arbitrary: h)
  case Nil
  then show ?case by (simp add: abs_result_def)
next
  case (Cons i ids)
  have tip: "tipIds self = int_lists h ! self_tipIds h"
    using same_below_abs(2) [OF Cons.prems(1) assms(2,3,4)] assms(1) by simp
  have co: "landmark_coord_heap h lm j off k = landmark_coord self (abs_lmList h0 lm) j off k"
    for j off k
    using landmark_coord_heap_abs [OF tip, of lm j off k]
      same_below_abs(1) [OF Cons.prems(1) assms(2,3,4)] by simp
  have nxt: "abs_result (fingers_loop_heap (list_append h a v) lm ids a) =
      fingers_loop self (abs_lmList h0 lm) ids (int_lists h ! a @ [v])" for v
  proof -
    have sb: "same_below n h0 (list_append h a v)"
      using Cons.prems(1) same_below_append [OF assms(5), of h v] by (rule same_below_trans)
    have len: "a < length (int_lists (list_append h a v))"
      using Cons.prems(2) by (simp add: list_append_def)
    have "int_lists (list_append h a v) ! a = int_lists h ! a @ [v]"
      using Cons.prems(2) by (simp add: list_append_def)
    then show ?thesis
      using Cons.IH [OF sb len] by simp
  qed
  show ?case
  proof (cases "landmark_coord self (abs_lmList h0 lm) i 0 2")
    case (Inl e)
    then show ?thesis by (simp add: co abs_result_def)
  next
    case tip: (Inr tipv)
    show ?thesis
    proof (cases "landmark_coord self (abs_lmList h0 lm) i 2 2")
      case (Inl e)
      then show ?thesis by (simp add: co tip abs_result_def)
    next
      case (Inr refv)
      then show ?thesis by (simp add: co tip nxt)
    qed
  qed
qed

lemma fingersUp_heap_abs:
  assumes "valid_args h lm" and "tipIds self = int_lists h ! self_tipIds h"
  shows "abs_result (fingersUp_heap h lm ht) = fingersUp self (abs_lmList h lm) ht"
proof -
  let ?n = "length (int_lists h)"
  let ?h1 = "snd (new_list h)"
  have v: "self_tipIds h < ?n" "list_all (\<lambda>p. p < ?n) (ref_lists h ! lm)"
    using assms(1) by (simp_all add: valid_args_def)
  have a: "fst (new_list h) = ?n" by (simp add: new_list_def)
  have sb1: "same_below ?n h ?h1" by (rule same_below_new)
  have tip: "tipIds self = int_lists ?h1 ! self_tipIds ?h1"
    using same_below_abs(2) [OF sb1 order_refl v] assms(2) by simp
  have co: "landmark_coord_heap ?h1 lm j off k = landmark_coord self (abs_lmList h lm) j off k"
    for j off k
    using landmark_coord_heap_abs [OF tip, of lm j off k]
      same_below_abs(1) [OF sb1 order_refl v] by simp
  have nxt: "abs_result (fingers_loop_heap (list_append ?h1 ?n b) lm ids ?n) =
      fingers_loop self (abs_lmList h lm) ids ([] @ [b])" for b ids
  proof -
    have sb: "same_below ?n h (list_append ?h1 ?n b)"
      using sb1 same_below_append [OF order_refl, of ?n ?h1 b] by (rule same_below_trans)
    have len: "?n < length (int_lists (list_append ?h1 ?n b))"
      by (simp add: list_append_def new_list_def)
    have "int_lists (list_append ?h1 ?n b) ! ?n = [b]"
      by (simp add: list_append_def new_list_def)
    then show ?thesis
      using fingers_loop_heap_abs [OF assms(2) order_refl v order_refl sb len, of ids]
      by simp
  qed
  show ?thesis
  proof (cases "landmark_coord self (abs_lmList h lm) 0 0 1")
    case (Inl e)
    then show ?thesis
      by (simp add: fingersUp_heap_def fingersUp_def case_prod_beta a co abs_result_def)
  next
    case tip: (Inr tipv)
    show ?thesis
    proof (cases "landmark_coord self (abs_lmList h lm) 0 1 1")
      case (Inl e)
      then show ?thesis
        by (simp add: fingersUp_heap_def fingersUp_def case_prod_beta a co tip abs_result_def)
    next
      case (Inr refv)
      then show ?thesis
        by (simp add: fingersUp_heap_def fingersUp_def case_prod_beta a co tip nxt)
    qed
  qed
qed


lemma same_below_valid:
  "same_below n h h' \<Longrightarrow> valid_args h lm \<Longrightarrow> valid_args h' lm"
  by (auto simp: same_below_def valid_args_def list_all_iff)

text \<open>
  C8. On a store in which the arguments are allocated, the vector \<^verbatim>\<open>fingersUp\<close> returns is
  the value-level function \<^verbatim>\<open>fingersUp\<close> of the contents of the landmark list, of the
  handedness and of the contents of \<^verbatim>\<open>self.tipIds\<close>, which \<^verbatim>\<open>__init__\<close> fixes. So a call on
  another store with the same contents returns an equal vector, and so does a second call
  on the store the first one leaves. The call changes no list object that existed before it
  (the landmark list, its entries and \<^verbatim>\<open>tipIds\<close> among them) and not the detector's
  attribute: \<^verbatim>\<open>fingers\<close> is a new object.
\<close>

theorem C8_pure_function:
  assumes "valid_args h lmList" and "tipIds self = int_lists h ! self_tipIds h"
    and "valid_args h2 lmList2"
    and "int_lists h2 ! self_tipIds h2 = int_lists h ! self_tipIds h"
    and "abs_lmList h2 lmList2 = abs_lmList h lmList"
  shows "abs_result (fingersUp_heap h lmList handType) =
           fingersUp self (abs_lmList h lmList) handType \<and>
         abs_result (fingersUp_heap h2 lmList2 handType) =
           abs_result (fingersUp_heap h lmList handType) \<and>
         abs_result (fingersUp_heap (snd (fingersUp_heap h lmList handType)) lmList handType) =
           abs_result (fingersUp_heap h lmList handType) \<and>
         take (length (int_lists h)) (int_lists (snd (fingersUp_heap h lmList handType))) =
           int_lists h \<and>
         ref_lists (snd (fingersUp_heap h lmList handType)) = ref_lists h \<and>
         self_tipIds (snd (fingersUp_heap h lmList handType)) = self_tipIds h"
proof -
  let ?h' = "snd (fingersUp_heap h lmList handType)"
  have v: "self_tipIds h < length (int_lists h)"
    "list_all (\<lambda>p. p < length (int_lists h)) (ref_lists h ! lmList)"
    using assms(1) by (simp_all add: valid_args_def)
  have fr: "same_below (length (int_lists h)) h ?h'"
    by (rule fingersUp_heap_frame)
  have 1: "abs_result (fingersUp_heap h lmList handType) =
      fingersUp self (abs_lmList h lmList) handType"
    by (rule fingersUp_heap_abs [OF assms(1,2)])
  have "abs_result (fingersUp_heap h2 lmList2 handType) =
      fingersUp self (abs_lmList h2 lmList2) handType"
    using fingersUp_heap_abs [OF assms(3), of self handType] assms(2,4) by simp
  then have 2: "abs_result (fingersUp_heap h2 lmList2 handType) =
      abs_result (fingersUp_heap h lmList handType)"
    using 1 assms(5) by simp
  have "abs_result (fingersUp_heap ?h' lmList handType) =
      fingersUp self (abs_lmList ?h' lmList) handType"
    using fingersUp_heap_abs [OF same_below_valid [OF fr assms(1)], of self handType]
      same_below_abs(2) [OF fr order_refl v] assms(2) by simp
  then have 3: "abs_result (fingersUp_heap ?h' lmList handType) =
      abs_result (fingersUp_heap h lmList handType)"
    using 1 same_below_abs(1) [OF fr order_refl v] by simp
  show ?thesis
    using 1 2 3 fr by (simp add: same_below_def)
qed

lemma abs_example_heap: "abs_lmList example_heap 0 = example_hand"
  by (simp add: abs_lmList_def example_heap_def example_hand_def)

lemma abs_example_heap2: "abs_lmList example_heap2 1 = example_hand"
  by (simp add: abs_lmList_def example_heap2_def example_hand_def)

lemma valid_example_heap: "valid_args example_heap 0"
  by (simp add: valid_args_def example_heap_def example_hand_def)

lemma valid_example_heap2: "valid_args example_heap2 1"
  by (simp add: valid_args_def example_heap2_def example_hand_def)

lemma tipIds_example_heap:
  "int_lists example_heap ! self_tipIds example_heap = [4, 8, 12, 16, 20]"
  "int_lists example_heap2 ! self_tipIds example_heap2 = [4, 8, 12, 16, 20]"
  by (simp_all add: example_heap_def example_heap2_def example_hand_def)

lemma fingersUp_example_right:
  "fingersUp handDetector_init example_hand (PyStr ''Right'') = Inr [0, 1, 0, 0, 1]"
  using hand_observation_example
  by (simp add: fingersUp_explicit [OF tipIds_init] hand_observation_def
      example_hand_coords b2i_def)

theorem C8_pure_function_witness:
  "valid_args example_heap 0 \<and>
   tipIds handDetector_init = int_lists example_heap ! self_tipIds example_heap \<and>
   valid_args example_heap2 1 \<and>
   int_lists example_heap2 ! self_tipIds example_heap2 =
     int_lists example_heap ! self_tipIds example_heap \<and>
   abs_lmList example_heap2 1 = abs_lmList example_heap 0 \<and>
   abs_result (fingersUp_heap example_heap 0 (PyStr ''Right'')) = Inr [0, 1, 0, 0, 1] \<and>
   abs_result (fingersUp_heap example_heap2 1 (PyStr ''Right'')) = Inr [0, 1, 0, 0, 1] \<and>
   abs_result (fingersUp_heap (snd (fingersUp_heap example_heap 0 (PyStr ''Right''))) 0
     (PyStr ''Right'')) = Inr [0, 1, 0, 0, 1] \<and>
   take 22 (int_lists (snd (fingersUp_heap example_heap 0 (PyStr ''Right'')))) =
     int_lists example_heap \<and>
   ref_lists (snd (fingersUp_heap example_heap 0 (PyStr ''Right''))) = ref_lists example_heap \<and>
   self_tipIds (snd (fingersUp_heap example_heap 0 (PyStr ''Right''))) = 21"
proof -
  have t: "tipIds handDetector_init = int_lists example_heap ! self_tipIds example_heap"
    by (simp add: tipIds_init tipIds_example_heap)
  have e: "int_lists example_heap2 ! self_tipIds example_heap2 =
      int_lists example_heap ! self_tipIds example_heap"
    by (simp add: tipIds_example_heap)
  have a: "abs_lmList example_heap2 1 = abs_lmList example_heap 0"
    by (simp only: abs_example_heap abs_example_heap2)
  have n: "length (int_lists example_heap) = 22" "self_tipIds example_heap = 21"
    by (simp_all add: example_heap_def example_hand_def)
  show ?thesis
    using C8_pure_function [OF valid_example_heap t valid_example_heap2 e a,
        of "PyStr ''Right''"]
      valid_example_heap valid_example_heap2 t e a
    by (simp add: abs_example_heap fingersUp_example_right n)
qed


end
